theory Spec2Isabelle
  imports Main
begin

section \<open>The deploy endpoint of deploy.py\<close>

text \<open>
  The program is one Flask view, \<open>deploy_contract\<close>, registered for the rule
  \<open>/deploy\<close> with the methods GET and POST. The view builds a fixed argument list, calls
  \<open>subprocess.run\<close> on it with both streams piped, and turns the result into a JSON
  response. Everything outside the view (the operating system, the child process, the
  interpreter's exceptions) is a parameter of the model.
\<close>

subsection \<open>Python values the view handles\<close>

text \<open>
  The JSON documents the view can build: the dictionaries passed to \<open>jsonify\<close> hold
  booleans and strings, and \<open>None\<close> where a stream was not captured.
\<close>

datatype json = JNull | JBool bool | JString string | JObject "(string \<times> json) list"

text \<open>
  A raised Python exception object. \<open>is_Exception e\<close> is \<open>isinstance(e, Exception)\<close>:
  it is false for \<open>KeyboardInterrupt\<close>, \<open>SystemExit\<close> and the other classes that derive
  from \<open>BaseException\<close> only. \<open>py_str e\<close> is \<open>str(e)\<close>.
\<close>

datatype py_exception = PyException (is_Exception: bool) (py_str: string)

text \<open>\<open>subprocess.CompletedProcess\<close>: a stream that was not piped is \<open>None\<close>.\<close>

record completed_process =
  args :: "string list"
  returncode :: int
  stdout :: "string option"
  stderr :: "string option"

text \<open>The value of the \<open>stdout=\<close> and \<open>stderr=\<close> arguments: \<open>subprocess.PIPE\<close> or the default.\<close>

datatype stream_arg = PIPE | Inherit

subsection \<open>The environment\<close>

text \<open>
  What running an argument vector does in the current environment: the child exits with a
  return code (negative when a signal killed it) after writing two texts to its standard
  output and standard error, or the call to \<open>subprocess.run\<close> raises (the executable is
  missing, permission is denied, the output cannot be decoded as text, ...).
\<close>

datatype child_outcome = Exited int string string | Run_raises py_exception

text \<open>
  The world a request runs in: the behaviour of the operating system on each argument
  vector, and the log of the argument vectors spawned so far.
\<close>

record world =
  child :: "string list \<Rightarrow> child_outcome"
  spawned :: "string list list"

text \<open>
  \<open>subprocess.run(argv, stdout=so, stderr=se, text=True)\<close>: spawns \<open>argv\<close>, waits for it,
  and returns the completed process with the piped streams captured as text, or raises.
\<close>

definition subprocess_run ::
  "string list \<Rightarrow> stream_arg \<Rightarrow> stream_arg \<Rightarrow> world \<Rightarrow> (py_exception + completed_process) \<times> world" where
  "subprocess_run argv so se w =
     (let w' = w\<lparr>spawned := spawned w @ [argv]\<rparr> in
      case child w argv of
        Exited rc out err \<Rightarrow>
          (Inr \<lparr>args = argv, returncode = rc,
                stdout = (if so = PIPE then Some out else None),
                stderr = (if se = PIPE then Some err else None)\<rparr>, w')
      | Run_raises e \<Rightarrow> (Inl e, w'))"

subsection \<open>Flask: requests, responses, jsonify\<close>

text \<open>
  The request the framework holds while the view runs (\<open>flask.request\<close>): the view imports
  it and never reads it.
\<close>

record request =
  req_method :: string
  req_query :: string
  req_body :: string

record response =
  status :: nat
  mimetype :: string
  body :: json

text \<open>\<open>jsonify(d)\<close>: a response with status 200 whose body is the JSON object of \<open>d\<close>.\<close>

definition jsonify :: "(string \<times> json) list \<Rightarrow> response" where
  "jsonify d = \<lparr>status = 200, mimetype = ''application/json'', body = JObject d\<rparr>"

text \<open>A Python \<open>str\<close> or \<open>None\<close> as a JSON value.\<close>

fun json_of_text :: "string option \<Rightarrow> json" where
  "json_of_text (Some s) = JString s"
| "json_of_text None = JNull"

text \<open>
  What a view returns: a response, or a pair of a response and a status code, which the
  framework turns into the response with that status.
\<close>

datatype view_rv = Rv response | Rv_status response nat

fun make_response :: "view_rv \<Rightarrow> response" where
  "make_response (Rv r) = r"
| "make_response (Rv_status r s) = r\<lparr>status := s\<rparr>"

subsection \<open>The view\<close>

text \<open>The methods of the route declaration.\<close>

definition route_methods :: "string list" where
  "route_methods = [''GET'', ''POST'']"

definition command :: "string list" where
  "command =
     [''stellar'', ''contract'', ''deploy'',
      ''--wasm'', ''target/wasm32-unknown-unknown/release/hello_world.wasm'',
      ''--source'', ''mediator'',
      ''--network'', ''testnet'']"

text \<open>
  \<open>deploy_contract\<close>. The result is \<open>Inr\<close> of the response, or \<open>Inl\<close> of an exception that
  leaves the view: \<open>except Exception\<close> catches the instances of \<open>Exception\<close> only.
\<close>

definition deploy_contract :: "request \<Rightarrow> world \<Rightarrow> (py_exception + response) \<times> world" where
  "deploy_contract req w =
     (case subprocess_run command PIPE PIPE w of
        (Inr result, w') \<Rightarrow>
          if returncode result = 0
          then (Inr (make_response (Rv (jsonify
                  [(''success'', JBool True), (''output'', json_of_text (stdout result))]))), w')
          else (Inr (make_response (Rv_status (jsonify
                  [(''success'', JBool False), (''error'', json_of_text (stderr result))]) 400)), w')
      | (Inl e, w') \<Rightarrow>
          if is_Exception e
          then (Inr (make_response (Rv_status (jsonify
                  [(''success'', JBool False), (''error'', JString (py_str e))]) 500)), w')
          else (Inl e, w'))"

subsection \<open>The main program\<close>

text \<open>The address \<open>app.run(host, port)\<close> listens on.\<close>

record listener =
  bind_host :: string
  bind_port :: nat

definition app_run :: "string \<Rightarrow> nat \<Rightarrow> listener" where
  "app_run h p = \<lparr>bind_host = h, bind_port = p\<rparr>"

text \<open>
  The module's last statement, as a function of \<open>__name__\<close>: the server is started only
  when the module is the main program.
\<close>

definition main :: "string \<Rightarrow> listener option" where
  "main name = (if name = ''__main__'' then Some (app_run ''0.0.0.0'' 5000) else None)"

subsection \<open>The outcomes of the specification\<close>

text \<open>
  The three responses the specification names, written from its words: success (200 with
  the captured standard output), tool failure (400 with the captured standard error) and
  invocation failure (500 with the exception's message).
\<close>

definition spec_success :: "string \<Rightarrow> response" where
  "spec_success out =
     \<lparr>status = 200, mimetype = ''application/json'',
      body = JObject [(''success'', JBool True), (''output'', JString out)]\<rparr>"

definition spec_tool_failure :: "string \<Rightarrow> response" where
  "spec_tool_failure err =
     \<lparr>status = 400, mimetype = ''application/json'',
      body = JObject [(''success'', JBool False), (''error'', JString err)]\<rparr>"

definition spec_invocation_failure :: "string \<Rightarrow> response" where
  "spec_invocation_failure m =
     \<lparr>status = 500, mimetype = ''application/json'',
      body = JObject [(''success'', JBool False), (''error'', JString m)]\<rparr>"

fun spec_response :: "child_outcome \<Rightarrow> response" where
  "spec_response (Exited rc out err) =
     (if rc = 0 then spec_success out else spec_tool_failure err)"
| "spec_response (Run_raises e) = spec_invocation_failure (py_str e)"

fun is_exit_zero :: "child_outcome \<Rightarrow> bool" where
  "is_exit_zero (Exited rc out err) = (rc = 0)"
| "is_exit_zero (Run_raises e) = False"

fun is_exit_nonzero :: "child_outcome \<Rightarrow> bool" where
  "is_exit_nonzero (Exited rc out err) = (rc \<noteq> 0)"
| "is_exit_nonzero (Run_raises e) = False"

fun is_raise :: "child_outcome \<Rightarrow> bool" where
  "is_raise (Exited rc out err) = False"
| "is_raise (Run_raises e) = True"

text \<open>
  The outcomes on which the view returns a response: the call returned, or it raised an
  instance of \<open>Exception\<close>, the class the view's \<open>except\<close> clause names.
\<close>

fun handled :: "child_outcome \<Rightarrow> bool" where
  "handled (Exited rc out err) = True"
| "handled (Run_raises e) = is_Exception e"

text \<open>The field of a name in the JSON object of a response's body, if there is one.\<close>

fun body_field :: "string \<Rightarrow> py_exception + response \<Rightarrow> json option" where
  "body_field k (Inr r) = (case body r of JObject d \<Rightarrow> map_of d k | _ \<Rightarrow> None)"
| "body_field k (Inl e) = None"

subsection \<open>Concrete requests and worlds\<close>

definition example_get :: request where
  "example_get = \<lparr>req_method = ''GET'', req_query = [], req_body = []\<rparr>"

definition example_post :: request where
  "example_post =
     \<lparr>req_method = ''POST'', req_query = ''network=mainnet'', req_body = ''wasm=other.wasm''\<rparr>"

text \<open>A world in which every spawn has the given outcome and nothing was spawned yet.\<close>

definition world_of :: "child_outcome \<Rightarrow> world" where
  "world_of oc = \<lparr>child = (\<lambda>argv. oc), spawned = []\<rparr>"

text \<open>
  The exception of a missing executable, whose message quotes the program's name
  (character \<open>0x27\<close> is the single quote), and an exception whose \<open>str\<close> is empty.
\<close>

definition file_not_found :: py_exception where
  "file_not_found = PyException True
     (''[Errno 2] No such file or directory: '' @ [CHR 0x27] @ ''stellar'' @ [CHR 0x27])"

definition memory_error :: py_exception where
  "memory_error = PyException True []"

section \<open>Properties of the view\<close>

subsection \<open>What the view computes\<close>

lemma subprocess_run_piped:
  "subprocess_run argv PIPE PIPE w =
     ((case child w argv of
         Exited rc out err \<Rightarrow>
           Inr \<lparr>args = argv, returncode = rc, stdout = Some out, stderr = Some err\<rparr>
       | Run_raises e \<Rightarrow> Inl e),
      w\<lparr>spawned := spawned w @ [argv]\<rparr>)"
  by (simp add: subprocess_run_def Let_def split: child_outcome.splits)

lemma deploy_contract_exited:
  assumes "child w command = Exited rc out err"
  shows "fst (deploy_contract req w) =
           Inr (if rc = 0 then spec_success out else spec_tool_failure err)"
  using assms
  by (simp add: deploy_contract_def subprocess_run_piped jsonify_def
      spec_success_def spec_tool_failure_def)

lemma deploy_contract_raises:
  assumes "child w command = Run_raises e"
  shows "fst (deploy_contract req w) =
           (if is_Exception e then Inr (spec_invocation_failure (py_str e)) else Inl e)"
  using assms
  by (simp add: deploy_contract_def subprocess_run_piped jsonify_def
      spec_invocation_failure_def)

lemma deploy_contract_world:
  "snd (deploy_contract req w) = w\<lparr>spawned := spawned w @ [command]\<rparr>"
  by (simp add: deploy_contract_def subprocess_run_piped
      split: child_outcome.splits)

lemma child_world_of: "child (world_of oc) argv = oc"
  by (simp add: world_of_def)

text \<open>
  An exception that is not an instance of \<open>Exception\<close> is not caught: it leaves the view
  and no response is built.
\<close>

lemma deploy_contract_propagates:
  assumes "child w command = Run_raises e" and "\<not> is_Exception e"
  shows "fst (deploy_contract req w) = Inl e"
  using deploy_contract_raises [OF assms(1), of req] assms(2) by simp

subsection \<open>The three outcomes\<close>

text \<open>
  C1. When the call to the subprocess returns with exit code 0, the view answers with
  status 200 and the JSON body \<open>{"success": true, "output": s}\<close>, where \<open>s\<close> is the
  captured standard output, unchanged.
\<close>

theorem deploy_exit_zero:
  assumes "child w command = Exited 0 out err"
  shows "fst (deploy_contract req w) =
           Inr \<lparr>status = 200, mimetype = ''application/json'',
                body = JObject [(''success'', JBool True), (''output'', JString out)]\<rparr>"
  using deploy_contract_exited [OF assms, of req] by (simp add: spec_success_def)

theorem deploy_exit_zero_witness:
  "child (world_of (Exited 0 ''deployed'' ''warning'')) command
     = Exited 0 ''deployed'' ''warning''
   \<and> fst (deploy_contract example_post (world_of (Exited 0 ''deployed'' ''warning''))) =
       Inr \<lparr>status = 200, mimetype = ''application/json'',
            body = JObject [(''success'', JBool True), (''output'', JString ''deployed'')]\<rparr>"
  using deploy_exit_zero [of "world_of (Exited 0 ''deployed'' ''warning'')"
      "''deployed''" "''warning''" example_post]
  by (simp add: child_world_of)

text \<open>
  C2. When the call to the subprocess returns with a nonzero exit code, the view answers
  with status 400 and the JSON body \<open>{"success": false, "error": e}\<close>, where \<open>e\<close> is the
  captured standard error, unchanged.
\<close>

theorem deploy_exit_nonzero:
  assumes "child w command = Exited rc out err" and "rc \<noteq> 0"
  shows "fst (deploy_contract req w) =
           Inr \<lparr>status = 400, mimetype = ''application/json'',
                body = JObject [(''success'', JBool False), (''error'', JString err)]\<rparr>"
  using deploy_contract_exited [OF assms(1), of req] assms(2)
  by (simp add: spec_tool_failure_def)

theorem deploy_exit_nonzero_witness:
  "child (world_of (Exited (- 9) ''partial'' ''killed'')) command
     = Exited (- 9) ''partial'' ''killed''
   \<and> (- 9 :: int) \<noteq> 0
   \<and> fst (deploy_contract example_get (world_of (Exited (- 9) ''partial'' ''killed''))) =
       Inr \<lparr>status = 400, mimetype = ''application/json'',
            body = JObject [(''success'', JBool False), (''error'', JString ''killed'')]\<rparr>"
  using deploy_exit_nonzero [of "world_of (Exited (- 9) ''partial'' ''killed'')"
      "- 9" "''partial''" "''killed''" example_get]
  by (simp add: child_world_of)

text \<open>
  C3. When the call to the subprocess raises an exception (an instance of \<open>Exception\<close>,
  such as the error of a missing executable), the view answers with status 500 and the
  JSON body \<open>{"success": false, "error": m}\<close>, where \<open>m\<close> is \<open>str\<close> of the exception.
\<close>

theorem deploy_exception:
  assumes "child w command = Run_raises e" and "is_Exception e"
  shows "fst (deploy_contract req w) =
           Inr \<lparr>status = 500, mimetype = ''application/json'',
                body = JObject [(''success'', JBool False), (''error'', JString (py_str e))]\<rparr>"
  using deploy_contract_raises [OF assms(1), of req] assms(2)
  by (simp add: spec_invocation_failure_def)

theorem deploy_exception_witness:
  "child (world_of (Run_raises file_not_found)) command = Run_raises file_not_found
   \<and> is_Exception file_not_found
   \<and> fst (deploy_contract example_get (world_of (Run_raises file_not_found))) =
       Inr \<lparr>status = 500, mimetype = ''application/json'',
            body = JObject [(''success'', JBool False),
              (''error'', JString
                 (''[Errno 2] No such file or directory: '' @ [CHR 0x27] @ ''stellar''
                  @ [CHR 0x27]))]\<rparr>"
  using deploy_exception [of "world_of (Run_raises file_not_found)" file_not_found example_get]
  by (simp add: child_world_of file_not_found_def)

subsection \<open>The argument vector\<close>

text \<open>
  C4. Every request spawns exactly one process, and its argument vector is the fixed list
  \<open>stellar contract deploy --wasm <path> --source mediator --network testnet\<close>, whatever
  the request's method, body and query string are.
\<close>

theorem deploy_argv_fixed:
  "spawned (snd (deploy_contract req w)) =
     spawned w @
       [[''stellar'', ''contract'', ''deploy'',
         ''--wasm'', ''target/wasm32-unknown-unknown/release/hello_world.wasm'',
         ''--source'', ''mediator'',
         ''--network'', ''testnet'']]"
  by (simp add: deploy_contract_world command_def)

subsection \<open>The shape of every response\<close>

text \<open>
  C5. Whether the subprocess succeeds, fails or cannot be started, the response has the
  JSON content type and its body is a JSON object with a boolean field \<open>success\<close>.
\<close>

theorem deploy_success_field:
  assumes "handled (child w command)"
  shows "\<exists>r d b. fst (deploy_contract req w) = Inr r
           \<and> mimetype r = ''application/json'' \<and> body r = JObject d
           \<and> body_field ''success'' (fst (deploy_contract req w)) = Some (JBool b)"
proof (cases "child w command")
  case (Exited rc out err)
  show ?thesis
    using deploy_contract_exited [OF Exited, of req]
    by (auto simp add: spec_success_def spec_tool_failure_def)
next
  case (Run_raises e)
  with assms have "is_Exception e" by simp
  then show ?thesis
    using deploy_contract_raises [OF Run_raises, of req]
    by (auto simp add: spec_invocation_failure_def)
qed

theorem deploy_success_field_witness:
  "handled (child (world_of (Run_raises memory_error)) command)
   \<and> (\<exists>r d b. fst (deploy_contract example_post (world_of (Run_raises memory_error))) = Inr r
         \<and> mimetype r = ''application/json'' \<and> body r = JObject d
         \<and> body_field ''success''
              (fst (deploy_contract example_post (world_of (Run_raises memory_error))))
            = Some (JBool b))"
  using deploy_success_field [of "world_of (Run_raises memory_error)" example_post]
  by (simp add: child_world_of memory_error_def)

subsection \<open>Independence of the request\<close>

text \<open>
  C6. A GET request and a POST request, with any bodies and query strings, are both
  accepted by the route, and when the subprocess call has the same outcome for both (the
  same exit code and streams, or the same exception) the two responses are equal.
\<close>

theorem deploy_ignores_request:
  assumes "req_method r1 = ''GET''" and "req_method r2 = ''POST''"
    and "child w1 command = child w2 command"
  shows "req_method r1 \<in> set route_methods \<and> req_method r2 \<in> set route_methods
         \<and> fst (deploy_contract r1 w1) = fst (deploy_contract r2 w2)"
proof -
  have "fst (deploy_contract r1 w1) = fst (deploy_contract r2 w2)"
  proof (cases "child w2 command")
    case (Exited rc out err)
    then show ?thesis
      using assms(3) by (simp add: deploy_contract_exited [of _ rc out err])
  next
    case (Run_raises e)
    then show ?thesis
      using assms(3) by (simp add: deploy_contract_raises [of _ e])
  qed
  with assms(1,2) show ?thesis by (simp add: route_methods_def)
qed

theorem deploy_ignores_request_witness:
  "req_method example_get = ''GET'' \<and> req_method example_post = ''POST''
   \<and> child (world_of (Exited 1 [] ''no network'')) command
       = child ((world_of (Exited 1 [] ''no network''))\<lparr>spawned := [command]\<rparr>) command
   \<and> fst (deploy_contract example_get (world_of (Exited 1 [] ''no network'')))
       = fst (deploy_contract example_post
               ((world_of (Exited 1 [] ''no network''))\<lparr>spawned := [command]\<rparr>))"
  using deploy_ignores_request [of example_get example_post
      "world_of (Exited 1 [] ''no network'')"
      "(world_of (Exited 1 [] ''no network''))\<lparr>spawned := [command]\<rparr>"]
  by (simp add: example_get_def example_post_def world_of_def)

subsection \<open>The message of an invocation failure\<close>

text \<open>
  C7, as the code has it. When the call to the subprocess raises an instance of
  \<open>Exception\<close>, the response has status 500 and its \<open>error\<close> field is \<open>str\<close> of that
  exception, whatever that string is: the field is the empty string exactly when \<open>str\<close>
  of the exception is empty, and so it is non-empty for a missing executable.
\<close>

theorem deploy_exception_message:
  assumes "child w command = Run_raises e" and "is_Exception e"
  shows "\<exists>r. fst (deploy_contract req w) = Inr r \<and> status r = 500
           \<and> body_field ''error'' (fst (deploy_contract req w)) = Some (JString (py_str e))
           \<and> (body_field ''error'' (fst (deploy_contract req w)) = Some (JString []))
               = (py_str e = [])"
  using deploy_contract_raises [OF assms(1), of req] assms(2)
  by (simp add: spec_invocation_failure_def)

theorem deploy_exception_message_witness:
  "child (world_of (Run_raises file_not_found)) command = Run_raises file_not_found
   \<and> is_Exception file_not_found
   \<and> (\<exists>r. fst (deploy_contract example_post (world_of (Run_raises file_not_found))) = Inr r
         \<and> status r = 500
         \<and> body_field ''error''
              (fst (deploy_contract example_post (world_of (Run_raises file_not_found))))
            = Some (JString (py_str file_not_found))
         \<and> (body_field ''error''
              (fst (deploy_contract example_post (world_of (Run_raises file_not_found))))
             = Some (JString [])) = (py_str file_not_found = []))
   \<and> py_str file_not_found \<noteq> []"
  using deploy_exception_message
    [of "world_of (Run_raises file_not_found)" file_not_found example_post]
  by (simp add: child_world_of file_not_found_def)

text \<open>
  C7 as stated fails: an exception whose \<open>str\<close> is empty (\<open>MemoryError()\<close>, or any
  exception raised without arguments) is caught, and the 500 response carries the empty
  string in its \<open>error\<close> field.
\<close>

theorem deploy_exception_message_empty:
  "child (world_of (Run_raises memory_error)) command = Run_raises memory_error
   \<and> is_Exception memory_error
   \<and> fst (deploy_contract example_get (world_of (Run_raises memory_error))) =
       Inr \<lparr>status = 500, mimetype = ''application/json'',
            body = JObject [(''success'', JBool False), (''error'', JString [])]\<rparr>"
  by (simp add: deploy_contract_raises [of _ memory_error] child_world_of
      spec_invocation_failure_def memory_error_def)

subsection \<open>Exactly three outcomes\<close>

text \<open>
  C8. On every outcome of the subprocess call (exit 0, nonzero exit, or an exception the
  view catches) the view returns the one response the specification names for it: status
  200 exactly on exit 0, status 400 exactly on a nonzero exit, status 500 exactly on an
  exception, and \<open>success\<close> is true on exit 0 only, so that no failure is reported as a
  success and none gets a status outside 400 and 500.
\<close>

theorem deploy_three_outcomes:
  assumes "handled (child w command)"
  shows "\<exists>r. fst (deploy_contract req w) = Inr r
           \<and> r = spec_response (child w command)
           \<and> (status r = 200) = is_exit_zero (child w command)
           \<and> (status r = 400) = is_exit_nonzero (child w command)
           \<and> (status r = 500) = is_raise (child w command)
           \<and> body_field ''success'' (Inr r) = Some (JBool (is_exit_zero (child w command)))"
proof (cases "child w command")
  case (Exited rc out err)
  show ?thesis
    using deploy_contract_exited [OF Exited, of req] Exited
    by (cases "rc = 0") (simp_all add: spec_success_def spec_tool_failure_def)
next
  case (Run_raises e)
  with assms have "is_Exception e" by simp
  then show ?thesis
    using deploy_contract_raises [OF Run_raises, of req] Run_raises
    by (simp add: spec_invocation_failure_def)
qed

theorem deploy_three_outcomes_witness:
  "handled (child (world_of (Exited 2 ''out'' ''err'')) command)
   \<and> (\<exists>r. fst (deploy_contract example_get (world_of (Exited 2 ''out'' ''err''))) = Inr r
         \<and> r = spec_response (child (world_of (Exited 2 ''out'' ''err'')) command)
         \<and> (status r = 200) = is_exit_zero (child (world_of (Exited 2 ''out'' ''err'')) command)
         \<and> (status r = 400)
             = is_exit_nonzero (child (world_of (Exited 2 ''out'' ''err'')) command)
         \<and> (status r = 500) = is_raise (child (world_of (Exited 2 ''out'' ''err'')) command)
         \<and> body_field ''success'' (Inr r)
             = Some (JBool (is_exit_zero (child (world_of (Exited 2 ''out'' ''err'')) command))))"
  using deploy_three_outcomes [of "world_of (Exited 2 ''out'' ''err'')" example_get]
  by (simp add: child_world_of)

subsection \<open>The main program\<close>

text \<open>
  C9. Run as the main program, the module starts the server on host \<open>0.0.0.0\<close>, that is
  on all network interfaces, and on port 5000.
\<close>

theorem main_binds_all_interfaces:
  "main ''__main__'' = Some \<lparr>bind_host = ''0.0.0.0'', bind_port = 5000\<rparr>"
  by (simp add: main_def app_run_def)

subsection \<open>The two streams are never mixed\<close>

text \<open>
  C10. On exit code 0 the response does not depend on the captured standard error and
  its body has no \<open>error\<close> field; on a nonzero exit code the response does not depend on
  the captured standard output and its body has no \<open>output\<close> field. The \<open>output\<close> field
  of the 200 body is the standard output and the \<open>error\<close> field of the 400 body is the
  standard error, so that on a nonzero exit with an empty standard error the \<open>error\<close>
  field is the empty string.
\<close>

theorem deploy_streams_not_mixed:
  assumes "child w1 command = Exited rc out1 err1"
    and "child w2 command = Exited rc out2 err2"
    and "if rc = 0 then out1 = out2 else err1 = err2"
  shows "fst (deploy_contract r1 w1) = fst (deploy_contract r2 w2)
         \<and> body_field ''error'' (fst (deploy_contract r1 w1))
             = (if rc = 0 then None else Some (JString err1))
         \<and> body_field ''output'' (fst (deploy_contract r1 w1))
             = (if rc = 0 then Some (JString out1) else None)"
  using deploy_contract_exited [OF assms(1), of r1]
    deploy_contract_exited [OF assms(2), of r2] assms(3)
  by (cases "rc = 0") (simp_all add: spec_success_def spec_tool_failure_def)

theorem deploy_streams_not_mixed_witness:
  "(child (world_of (Exited 0 ''id'' ''warning: slow'')) command
      = Exited 0 ''id'' ''warning: slow''
    \<and> child (world_of (Exited 0 ''id'' [])) command = Exited 0 ''id'' []
    \<and> (if (0::int) = 0 then ''id'' = ''id'' else ''warning: slow'' = [])
    \<and> fst (deploy_contract example_get (world_of (Exited 0 ''id'' ''warning: slow'')))
        = fst (deploy_contract example_get (world_of (Exited 0 ''id'' [])))
    \<and> body_field ''error''
         (fst (deploy_contract example_get (world_of (Exited 0 ''id'' ''warning: slow''))))
        = None
    \<and> body_field ''output''
         (fst (deploy_contract example_get (world_of (Exited 0 ''id'' ''warning: slow''))))
        = Some (JString ''id''))
   \<and> (child (world_of (Exited 1 ''partial'' [])) command = Exited 1 ''partial'' []
    \<and> child (world_of (Exited 1 [] [])) command = Exited 1 [] []
    \<and> (if (1::int) = 0 then ''partial'' = [] else ([]::string) = [])
    \<and> fst (deploy_contract example_get (world_of (Exited 1 ''partial'' [])))
        = fst (deploy_contract example_get (world_of (Exited 1 [] [])))
    \<and> body_field ''error''
         (fst (deploy_contract example_get (world_of (Exited 1 ''partial'' []))))
        = Some (JString [])
    \<and> body_field ''output''
         (fst (deploy_contract example_get (world_of (Exited 1 ''partial'' []))))
        = None)"
  using deploy_streams_not_mixed [of "world_of (Exited 0 ''id'' ''warning: slow'')" 0
      "''id''" "''warning: slow''" "world_of (Exited 0 ''id'' [])" "''id''" "[]"
      example_get example_get]
    deploy_streams_not_mixed [of "world_of (Exited 1 ''partial'' [])" 1
      "''partial''" "[]" "world_of (Exited 1 [] [])" "[]" "[]"
      example_get example_get]
  by (auto simp add: child_world_of)

end
